theory Spec2Isabelle
  imports Complex_Main
begin

section \<open>JavaScript numbers and dates\<close>

text \<open>
  The pattern analyser of the web application (\<^verbatim>\<open>analyzePattern\<close> in
  \<^verbatim>\<open>pattern-review/page.tsx\<close> and \<^verbatim>\<open>pattern-review-v2/page.tsx\<close>) computes with
  JavaScript numbers, which are IEEE doubles. A number is modelled as the real it stands
  for or one of the three special values. The sign of zero is not modelled: a zero
  divisor is the positive zero (every divisor of the analyser is a length or a sum of
  absolute values).

  The operations \<open>js_add\<close>, \<open>js_sub\<close>, \<open>js_mul\<close> and \<open>js_div\<close> give the exact result of
  an operation. An operation on doubles returns the double nearest to that result; these
  are \<open>fl_add\<close>, \<open>fl_sub\<close>, \<open>fl_mul\<close> and \<open>fl_div\<close> below, and the analyser computes its
  intervals, averages and confidence with them. The sum or difference of a time value and
  a number of milliseconds is an integer below \<open>2^53\<close> and so exact as it is; it is written
  with \<open>js_add\<close> and \<open>js_sub\<close>. The spreadsheet only adds amounts; its sums are also
  written with \<open>js_add\<close>, without the rounding of their last bit.
\<close>

datatype jsnum = Fin real | PInf | NInf | NaN

fun js_neg :: "jsnum \<Rightarrow> jsnum" where
  "js_neg (Fin a) = Fin (- a)"
| "js_neg PInf = NInf"
| "js_neg NInf = PInf"
| "js_neg NaN = NaN"

fun js_add :: "jsnum \<Rightarrow> jsnum \<Rightarrow> jsnum" where
  "js_add NaN _ = NaN"
| "js_add _ NaN = NaN"
| "js_add (Fin a) (Fin b) = Fin (a + b)"
| "js_add PInf NInf = NaN"
| "js_add NInf PInf = NaN"
| "js_add PInf _ = PInf"
| "js_add NInf _ = NInf"
| "js_add (Fin a) PInf = PInf"
| "js_add (Fin a) NInf = NInf"

definition js_sub :: "jsnum \<Rightarrow> jsnum \<Rightarrow> jsnum" where
  "js_sub a b = js_add a (js_neg b)"

text \<open>The sign of a number that is not NaN: \<open>-1\<close>, \<open>0\<close> or \<open>1\<close>.\<close>

fun js_sign :: "jsnum \<Rightarrow> int" where
  "js_sign (Fin a) = (if a < 0 then - 1 else if a = 0 then 0 else 1)"
| "js_sign PInf = 1"
| "js_sign NInf = - 1"
| "js_sign NaN = 0"

definition inf_of_sign :: "int \<Rightarrow> jsnum" where
  "inf_of_sign s = (if s < 0 then NInf else PInf)"

fun js_mul :: "jsnum \<Rightarrow> jsnum \<Rightarrow> jsnum" where
  "js_mul NaN _ = NaN"
| "js_mul _ NaN = NaN"
| "js_mul (Fin a) (Fin b) = Fin (a * b)"
| "js_mul a b = (if js_sign a * js_sign b = 0 then NaN else inf_of_sign (js_sign a * js_sign b))"

fun js_div :: "jsnum \<Rightarrow> jsnum \<Rightarrow> jsnum" where
  "js_div NaN _ = NaN"
| "js_div _ NaN = NaN"
| "js_div (Fin a) (Fin b) =
     (if b \<noteq> 0 then Fin (a / b)
      else if a = 0 then NaN
      else if 0 < a then PInf else NInf)"
| "js_div (Fin a) _ = Fin 0"
| "js_div a (Fin b) = inf_of_sign (js_sign a * (if b < 0 then - 1 else 1))"
| "js_div _ _ = NaN"

text \<open>
  Rounding to the nearest double, a tie going to the even significand. \<open>bits n\<close> is the
  number of binary digits of \<open>n\<close>, \<open>ilog2 x\<close> the exponent of the power of two at or below
  a positive \<open>x\<close>. A double has 53 significant bits, down to the exponent \<open>-1074\<close> of the
  last bit of a subnormal. Results beyond the largest double do not occur with time
  values and amounts, and the overflow to an infinity is not modelled.
\<close>

function bits :: "int \<Rightarrow> int" where
  "bits n = (if n \<le> 0 then 0 else 1 + bits (n div 2))"
  by pat_completeness auto
termination
  by (relation "measure nat") auto

declare bits.simps [simp del]

definition ilog2 :: "real \<Rightarrow> int" where
  "ilog2 x = (if 1 \<le> x then bits \<lfloor>x\<rfloor> - 1 else - bits (\<lceil>1 / x\<rceil> - 1))"

definition pow2 :: "int \<Rightarrow> real" where
  "pow2 e = (if 0 \<le> e then 2 ^ nat e else 1 / 2 ^ nat (- e))"

definition round_half_even :: "real \<Rightarrow> int" where
  "round_half_even x =
     (let f = \<lfloor>x\<rfloor>; r = x - of_int f
      in if r < 1 / 2 then f else if 1 / 2 < r then f + 1
         else if even f then f else f + 1)"

definition fl :: "real \<Rightarrow> real" where
  "fl x =
     (if x = 0 then 0
      else (let e = max (ilog2 \<bar>x\<bar>) (- 1022) - 52;
                m = round_half_even (\<bar>x\<bar> / pow2 e)
            in sgn x * (of_int m * pow2 e)))"

fun fl_num :: "jsnum \<Rightarrow> jsnum" where
  "fl_num (Fin a) = Fin (fl a)"
| "fl_num v = v"

definition fl_add :: "jsnum \<Rightarrow> jsnum \<Rightarrow> jsnum" where
  "fl_add a b = fl_num (js_add a b)"

definition fl_sub :: "jsnum \<Rightarrow> jsnum \<Rightarrow> jsnum" where
  "fl_sub a b = fl_num (js_sub a b)"

definition fl_mul :: "jsnum \<Rightarrow> jsnum \<Rightarrow> jsnum" where
  "fl_mul a b = fl_num (js_mul a b)"

definition fl_div :: "jsnum \<Rightarrow> jsnum \<Rightarrow> jsnum" where
  "fl_div a b = fl_num (js_div a b)"

text \<open>The comparisons \<^verbatim>\<open><=\<close> and \<^verbatim>\<open>>=\<close>: false as soon as one side is NaN.\<close>

fun js_le :: "jsnum \<Rightarrow> jsnum \<Rightarrow> bool" where
  "js_le NaN _ = False"
| "js_le _ NaN = False"
| "js_le (Fin a) (Fin b) = (a \<le> b)"
| "js_le NInf _ = True"
| "js_le _ PInf = True"
| "js_le _ _ = False"

definition js_ge :: "jsnum \<Rightarrow> jsnum \<Rightarrow> bool" where
  "js_ge a b = js_le b a"

fun Math_abs :: "jsnum \<Rightarrow> jsnum" where
  "Math_abs (Fin a) = Fin \<bar>a\<bar>"
| "Math_abs PInf = PInf"
| "Math_abs NInf = PInf"
| "Math_abs NaN = NaN"

text \<open>\<^verbatim>\<open>Math.min\<close> and \<^verbatim>\<open>Math.max\<close> return NaN as soon as one argument is NaN.\<close>

fun Math_min :: "jsnum \<Rightarrow> jsnum \<Rightarrow> jsnum" where
  "Math_min NaN _ = NaN"
| "Math_min _ NaN = NaN"
| "Math_min a b = (if js_le a b then a else b)"

fun Math_max :: "jsnum \<Rightarrow> jsnum \<Rightarrow> jsnum" where
  "Math_max NaN _ = NaN"
| "Math_max _ NaN = NaN"
| "Math_max a b = (if js_le a b then b else a)"

text \<open>\<^verbatim>\<open>Math.round\<close>: the nearest integer, a half rounded up, with no rounding error
  of its own; NaN and the infinities are returned as they are.\<close>

fun Math_round :: "jsnum \<Rightarrow> jsnum" where
  "Math_round (Fin a) = Fin (of_int \<lfloor>a + 1 / 2\<rfloor>)"
| "Math_round v = v"

text \<open>\<^verbatim>\<open>arr.reduce((a, b) => a + b, 0)\<close>\<close>

definition reduce_sum :: "jsnum list \<Rightarrow> jsnum" where
  "reduce_sum xs = foldl fl_add (Fin 0) xs"

text \<open>
  A \<^verbatim>\<open>Date\<close> object holds a time value, the milliseconds since the epoch, or is an
  invalid date. \<^verbatim>\<open>new Date(v)\<close> of a number clips it: a value that is not finite or
  lies beyond \<open>8.64e15\<close> milliseconds gives an invalid date, any other is truncated to an
  integer. \<^verbatim>\<open>getTime()\<close> of an invalid date is NaN.
\<close>

type_synonym Date = "int option"

definition trunc :: "real \<Rightarrow> int" where
  "trunc x = (if 0 \<le> x then \<lfloor>x\<rfloor> else \<lceil>x\<rceil>)"

fun new_Date :: "jsnum \<Rightarrow> Date" where
  "new_Date (Fin x) = (if \<bar>x\<bar> \<le> 8640000000000000 then Some (trunc x) else None)"
| "new_Date _ = None"

fun getTime :: "Date \<Rightarrow> jsnum" where
  "getTime (Some t) = Fin (real_of_int t)"
| "getTime None = NaN"

text \<open>\<^verbatim>\<open>d1 >= d2\<close> on two dates compares their time values as numbers.\<close>

definition date_ge :: "Date \<Rightarrow> Date \<Rightarrow> bool" where
  "date_ge d1 d2 = js_ge (getTime d1) (getTime d2)"

text \<open>
  \<^verbatim>\<open>d.toISOString()\<close> throws a RangeError on an invalid date. Of the string it returns
  the analyser keeps the part before \<^verbatim>\<open>T\<close>, the UTC calendar day; the model keeps the number
  of that day (days since the epoch), which determines the string.
\<close>

datatype js_error = RangeError

fun toISOString_date :: "Date \<Rightarrow> js_error + int" where
  "toISOString_date None = Inl RangeError"
| "toISOString_date (Some t) = Inr (t div 86400000)"

section \<open>The pattern analyser\<close>

text \<open>
  A transaction as \<^verbatim>\<open>analyzePattern\<close> reads it. The field \<open>transaction_date\<close> of the
  source is a string, and every use of it is \<^verbatim>\<open>new Date(tx.transaction_date)\<close>; the model
  holds that date: the parsed time value, at most \<open>8.64e15\<close> in magnitude, or \<open>None\<close>
  when the string does not parse. The amount is the number as JavaScript holds it.
\<close>

record transaction =
  transaction_date :: Date
  amount :: real

text \<open>
  The result of the analysis. The first page names the fields \<^verbatim>\<open>detected_pattern\<close>,
  \<^verbatim>\<open>detected_interval\<close>, \<^verbatim>\<open>detected_amount\<close>, \<^verbatim>\<open>confidence\<close>, \<^verbatim>\<open>next_date\<close>, the
  second \<^verbatim>\<open>pattern\<close>, \<^verbatim>\<open>interval\<close>, \<^verbatim>\<open>avgAmount\<close>, \<^verbatim>\<open>confidence\<close>, \<^verbatim>\<open>nextDate\<close>;
  one record serves both. \<open>next_date\<close> is \<open>None\<close> where the first page leaves the field
  out.
\<close>

record pattern_analysis =
  detected_pattern :: string
  detected_interval :: int
  detected_amount :: jsnum
  confidence :: jsnum
  next_date :: "int option"

text \<open>\<^verbatim>\<open>transactions[0]?.amount || 0\<close>: the first amount, and 0 when there is none
  or when it is 0.\<close>

definition first_amount_or_0 :: "transaction list \<Rightarrow> real" where
  "first_amount_or_0 transactions =
     (case transactions of [] \<Rightarrow> 0 | tx # _ \<Rightarrow> (if amount tx = 0 then 0 else amount tx))"

text \<open>The transactions of the last 90 days, counted back from today's time value \<open>now\<close>.\<close>

definition recentTxs :: "int \<Rightarrow> transaction list \<Rightarrow> transaction list" where
  "recentTxs now transactions =
     (let today = Some now;
          ninetyDaysAgo = new_Date (js_sub (getTime today) (Fin (90 * 24 * 60 * 60 * 1000)))
      in filter (\<lambda>tx. date_ge (transaction_date tx) ninetyDaysAgo) transactions)"

text \<open>The loop that fills \<^verbatim>\<open>intervals\<close>: index \<open>i\<close> runs while \<open>i < length - 1\<close>.\<close>

function intervals_loop :: "transaction list \<Rightarrow> nat \<Rightarrow> jsnum list \<Rightarrow> jsnum list" where
  "intervals_loop txs i intervals =
     (if int i < int (length txs) - 1 then
        (let date1 = transaction_date (txs ! i);
             date2 = transaction_date (txs ! (i + 1));
             daysDiff = fl_div (Math_abs (fl_sub (getTime date1) (getTime date2)))
                               (Fin (1000 * 60 * 60 * 24))
         in intervals_loop txs (i + 1) (intervals @ [daysDiff]))
      else intervals)"
  by pat_completeness auto
termination
  by (relation "measure (\<lambda>(txs, i, intervals). length txs - i)") auto

declare intervals_loop.simps [simp del]

text \<open>The chain of comparisons that chooses the pattern and its interval.\<close>

definition determine_pattern :: "jsnum \<Rightarrow> string \<times> int" where
  "determine_pattern avgInterval =
     (if js_le avgInterval (Fin 1.5) then (''daily'', 1)
      else if js_le avgInterval (Fin 8) then (''weekly'', 7)
      else if js_le avgInterval (Fin 17) then (''bi-weekly'', 14)
      else if js_le avgInterval (Fin 35) then (''monthly'', 30)
      else if js_le avgInterval (Fin 100) then (''quarterly'', 90)
      else (''irregular'', 0))"

text \<open>The part of \<^verbatim>\<open>analyzePattern\<close> after the two guards; the two pages have the
  same text there.\<close>

definition analyze_recent :: "transaction list \<Rightarrow> js_error + pattern_analysis" where
  "analyze_recent recent =
     (let intervals = intervals_loop recent 0 [];
          avgInterval = fl_div (reduce_sum intervals) (Fin (real (length intervals)));
          (pattern, interval) = determine_pattern avgInterval;
          variance = map (\<lambda>i. Math_abs (fl_sub i avgInterval)) intervals;
          avgVariance = fl_div (reduce_sum variance) (Fin (real (length variance)));
          conf = Math_max (Fin 0) (Math_min (Fin 100)
                   (fl_sub (Fin 100) (fl_mul (fl_div avgVariance avgInterval) (Fin 100))));
          amounts = map (\<lambda>tx. Math_abs (Fin (amount tx))) recent;
          avgAmount = fl_div (reduce_sum amounts) (Fin (real (length amounts)));
          lastDate = transaction_date (recent ! 0);
          nextDate = new_Date (js_add (getTime lastDate)
                                      (Fin (real_of_int (interval * 24 * 60 * 60 * 1000))))
      in case toISOString_date nextDate of
           Inl e \<Rightarrow> Inl e
         | Inr d \<Rightarrow> Inr \<lparr>detected_pattern = pattern, detected_interval = interval,
                           detected_amount = avgAmount, confidence = Math_round conf,
                           next_date = Some d\<rparr>)"

text \<open>\<^verbatim>\<open>analyzePattern\<close> of \<^verbatim>\<open>pattern-review/page.tsx\<close>. The current date, which the
  source reads from the clock, is the argument \<open>now\<close>.\<close>

definition analyzePattern :: "int \<Rightarrow> transaction list \<Rightarrow> js_error + pattern_analysis" where
  "analyzePattern now transactions =
     (if length transactions < 2 then
        Inr \<lparr>detected_pattern = ''irregular'', detected_interval = 0,
             detected_amount = Fin (first_amount_or_0 transactions), confidence = Fin 0,
             next_date = None\<rparr>
      else if length (recentTxs now transactions) < 2 then
        Inr \<lparr>detected_pattern = ''irregular'', detected_interval = 0,
             detected_amount = Fin (first_amount_or_0 transactions), confidence = Fin 0,
             next_date = None\<rparr>
      else analyze_recent (recentTxs now transactions))"

text \<open>\<^verbatim>\<open>analyzePattern\<close> of \<^verbatim>\<open>pattern-review-v2/page.tsx\<close>: the two early results carry
  today's date, and the second one the absolute value of the first amount.\<close>

definition analyzePattern_v2 :: "int \<Rightarrow> transaction list \<Rightarrow> js_error + pattern_analysis" where
  "analyzePattern_v2 now transactions =
     (if length transactions < 2 then
        (case toISOString_date (Some now) of
           Inl e \<Rightarrow> Inl e
         | Inr d \<Rightarrow> Inr \<lparr>detected_pattern = ''irregular'', detected_interval = 0,
                           detected_amount = Fin (first_amount_or_0 transactions),
                           confidence = Fin 0, next_date = Some d\<rparr>)
      else if length (recentTxs now transactions) < 2 then
        (case toISOString_date (Some now) of
           Inl e \<Rightarrow> Inl e
         | Inr d \<Rightarrow> Inr \<lparr>detected_pattern = ''irregular'', detected_interval = 0,
                           detected_amount = Math_abs (Fin (first_amount_or_0 transactions)),
                           confidence = Fin 0, next_date = Some d\<rparr>)
      else analyze_recent (recentTxs now transactions))"


section \<open>The forecast spreadsheet\<close>

text \<open>
  The data that \<^verbatim>\<open>ForecastSpreadsheet.tsx\<close> receives from the server. A JavaScript object
  indexed by strings is a map. The fields \<^verbatim>\<open>start_date\<close> and \<^verbatim>\<open>end_date\<close> of
  \<^verbatim>\<open>DashboardData\<close> carry the prefix \<open>dashboard\<close> here, and the field \<^verbatim>\<open>id\<close> of a
  vendor group is \<open>group_id\<close>.
\<close>

record forecast_cell =
  forecasted :: real
  actual :: real
  variance :: real
  is_actual :: bool

type_synonym ForecastData = "string \<rightharpoonup> (string \<rightharpoonup> (string \<rightharpoonup> forecast_cell))"

record CashBalance =
  balance_date :: string
  beginning_balance :: real
  ending_balance :: "real option"

record DashboardData =
  forecast_data :: ForecastData
  cash_balances :: "string \<rightharpoonup> CashBalance"
  dashboard_start_date :: string
  dashboard_end_date :: string

record Period =
  week_number :: int
  start_date :: string
  end_date :: string
  display_text :: string

record VendorGroup =
  group_id :: int
  group_name :: string
  display_name :: string
  category :: string
  subcategory :: string
  is_inflow :: bool

text \<open>\<^verbatim>\<open>v || 0\<close> on a value that is a number or undefined.\<close>

definition or0 :: "real option \<Rightarrow> real" where
  "or0 v = (case v of None \<Rightarrow> 0 | Some x \<Rightarrow> (if x = 0 then 0 else x))"

text \<open>The same on a value that may also be NaN or infinite.\<close>

definition js_or0 :: "jsnum option \<Rightarrow> jsnum" where
  "js_or0 v = (case v of None \<Rightarrow> Fin 0 | Some NaN \<Rightarrow> Fin 0 | Some x \<Rightarrow> (if x = Fin 0 then Fin 0 else x))"

text \<open>A property that is read without a default and then added to: undefined becomes NaN.\<close>

definition num_of :: "real option \<Rightarrow> jsnum" where
  "num_of v = (case v of None \<Rightarrow> NaN | Some x \<Rightarrow> Fin x)"

text \<open>
  A row of the grid is an object whose properties are, besides the fixed ones
  (\<^verbatim>\<open>id\<close>, \<^verbatim>\<open>display_name\<close>, ...), one number for each period, under the period's
  \<^verbatim>\<open>start_date\<close>. The model of a row is the map of these date columns.

  The row of beginning balances:
  \<^verbatim>\<open>cashBalanceRow[period.start_date] = balance?.beginning_balance || 0\<close>.
\<close>

definition cashBalanceRow :: "DashboardData \<Rightarrow> Period list \<Rightarrow> (string \<rightharpoonup> real)" where
  "cashBalanceRow dashboardData periods =
     fold (\<lambda>period row.
             (let balance = cash_balances dashboardData (start_date period)
              in row(start_date period \<mapsto> or0 (map_option beginning_balance balance))))
          periods Map.empty"

text \<open>\<^verbatim>\<open>dashboardData.forecast_data[date]?.[vg.category]?.[vg.subcategory]\<close>\<close>

definition lookup_data :: "DashboardData \<Rightarrow> string \<Rightarrow> VendorGroup \<Rightarrow> forecast_cell option" where
  "lookup_data dashboardData date vg =
     (case forecast_data dashboardData date of
        None \<Rightarrow> None
      | Some by_category \<Rightarrow>
          (case by_category (category vg) of
             None \<Rightarrow> None
           | Some by_subcategory \<Rightarrow> by_subcategory (subcategory vg)))"

text \<open>\<^verbatim>\<open>data?.is_actual ? data.actual : data?.forecasted || 0\<close>: the amount a vendor
  group shows in a week, and the amount the totals add.\<close>

definition cell_amount :: "DashboardData \<Rightarrow> string \<Rightarrow> VendorGroup \<Rightarrow> real" where
  "cell_amount dashboardData date vg =
     (case lookup_data dashboardData date vg of
        None \<Rightarrow> 0
      | Some data \<Rightarrow> (if is_actual data then actual data else or0 (Some (forecasted data))))"

text \<open>The row of one vendor group.\<close>

definition group_row :: "DashboardData \<Rightarrow> Period list \<Rightarrow> VendorGroup \<Rightarrow> (string \<rightharpoonup> real)" where
  "group_row dashboardData periods vg =
     fold (\<lambda>period row. row(start_date period \<mapsto> cell_amount dashboardData (start_date period) vg))
          periods Map.empty"

text \<open>The row of totals over the groups of one section. The source has this loop three
  times, for \<^verbatim>\<open>totalRevenueRow\<close>, \<^verbatim>\<open>totalOutflowsRow\<close> and \<^verbatim>\<open>netFinancingRow\<close>.\<close>

definition section_total_row ::
  "DashboardData \<Rightarrow> Period list \<Rightarrow> VendorGroup list \<Rightarrow> (string \<rightharpoonup> real)" where
  "section_total_row dashboardData periods groups =
     fold (\<lambda>period row.
             (let total = fold (\<lambda>vg total. total + cell_amount dashboardData (start_date period) vg)
                               groups 0
              in row(start_date period \<mapsto> total)))
          periods Map.empty"

definition netOperatingRow ::
  "(string \<rightharpoonup> real) \<Rightarrow> (string \<rightharpoonup> real) \<Rightarrow> Period list \<Rightarrow> (string \<rightharpoonup> real)" where
  "netOperatingRow totalRevenueRow totalOutflowsRow periods =
     fold (\<lambda>period row.
             (let revenue = or0 (totalRevenueRow (start_date period));
                  outflows = or0 (totalOutflowsRow (start_date period))
              in row(start_date period \<mapsto> revenue + outflows)))
          periods Map.empty"

text \<open>
  The loop that fills \<^verbatim>\<open>endingCashRow\<close>, \<^verbatim>\<open>periods.forEach((period, index) => ...)\<close>:
  \<open>index\<close> counts the periods done, the last list argument holds those still to do.
\<close>

fun endingCash_forEach ::
  "(string \<rightharpoonup> real) \<Rightarrow> (string \<rightharpoonup> real) \<Rightarrow> (string \<rightharpoonup> real) \<Rightarrow> Period list \<Rightarrow> nat \<Rightarrow>
   Period list \<Rightarrow> (string \<rightharpoonup> jsnum) \<Rightarrow> (string \<rightharpoonup> jsnum)" where
  "endingCash_forEach cashRow netOpRow netFinRow periods index [] endingCashRow = endingCashRow"
| "endingCash_forEach cashRow netOpRow netFinRow periods index (period # rest) endingCashRow =
     (let beginningCash =
            (if index = 0 then num_of (cashRow (start_date period))
             else js_or0 (endingCashRow (start_date (periods ! (index - 1)))));
          netOperating = or0 (netOpRow (start_date period));
          netFinancing = or0 (netFinRow (start_date period))
      in endingCash_forEach cashRow netOpRow netFinRow periods (index + 1) rest
           (endingCashRow(start_date period \<mapsto>
              js_add (js_add beginningCash (Fin netOperating)) (Fin netFinancing))))"

text \<open>
  The ending-cash row that \<^verbatim>\<open>rowData\<close> builds. There are no rows at all (\<open>None\<close>)
  while the dashboard data is not loaded or when there is no vendor group or no period.
\<close>

definition endingCashRow ::
  "DashboardData option \<Rightarrow> VendorGroup list \<Rightarrow> Period list \<Rightarrow> (string \<rightharpoonup> jsnum) option" where
  "endingCashRow dashboardData vendorGroups periods =
     (case dashboardData of
        None \<Rightarrow> None
      | Some dd \<Rightarrow>
          (if vendorGroups = [] \<or> periods = [] then None
           else
             (let cashRow = cashBalanceRow dd periods;
                  revenueGroups = filter (\<lambda>vg. category vg = ''revenue'') vendorGroups;
                  totalRevenueRow = section_total_row dd periods revenueGroups;
                  operatingGroups = filter (\<lambda>vg. category vg = ''operating'') vendorGroups;
                  totalOutflowsRow = section_total_row dd periods operatingGroups;
                  netOpRow = netOperatingRow totalRevenueRow totalOutflowsRow periods;
                  financingGroups = filter (\<lambda>vg. category vg = ''financing'') vendorGroups;
                  netFinancingRow = section_total_row dd periods financingGroups
              in Some (endingCash_forEach cashRow netOpRow netFinancingRow periods 0 periods
                         Map.empty))))"


subsection \<open>Editing a cell and generating forecasts\<close>

text \<open>
  \<^verbatim>\<open>updateCellValue\<close> posts this request to \<^verbatim>\<open>/api/forecast/cell-update\<close> and then
  reloads the data; \<^verbatim>\<open>generateForecasts\<close> posts to \<^verbatim>\<open>/api/forecast/generate\<close>.
\<close>

record CellUpdateRequest =
  client_id :: string
  forecast_date :: string
  vendor_group_id :: int
  new_amount :: real

definition updateCellValue :: "string \<Rightarrow> string \<Rightarrow> int \<Rightarrow> real \<Rightarrow> CellUpdateRequest" where
  "updateCellValue clientId date vendorGroupId newAmount =
     \<lparr>client_id = clientId, forecast_date = date, vendor_group_id = vendorGroupId,
      new_amount = newAmount\<rparr>"

text \<open>
  The cell renderer of a period's column: a row that carries a \<^verbatim>\<open>vendor_group_id\<close>
  (a truthy one, so not 0) gets the editable renderer, whose \<^verbatim>\<open>setValue\<close> calls
  \<^verbatim>\<open>updateCellValue(period.start_date, params.data.vendor_group_id, newValue)\<close>. Whether
  the cell shows an actual does not enter.
\<close>

definition setValue :: "string \<Rightarrow> Period \<Rightarrow> VendorGroup \<Rightarrow> real \<Rightarrow> CellUpdateRequest option" where
  "setValue clientId period vg newValue =
     (if group_id vg \<noteq> 0
      then Some (updateCellValue clientId (start_date period) (group_id vg) newValue)
      else None)"

section \<open>The server's forecast records\<close>

text \<open>
  Modelled from the spec: the handlers of \<^verbatim>\<open>/api/forecast/cell-update\<close> and
  \<^verbatim>\<open>/api/forecast/generate\<close> and the table of forecast records they write are not among
  the sources; only their caller, the spreadsheet, is. A forecast record is, in the
  words of the specification, one date and vendor group with a forecasted amount, the
  pattern type, the method (pattern or manual), the actual amount and the variance
  (both absent until reconciled) and the lock. There is at most one record for a vendor
  group and date, so the records are a map from that pair.
\<close>

record ForecastRecord =
  forecasted_amount :: real
  pattern_type :: string
  forecast_method :: string
  actual_amount :: "real option"
  variance_amount :: "real option"
  is_locked :: bool

type_synonym forecast_records = "(int \<times> string) \<rightharpoonup> ForecastRecord"

text \<open>
  Modelled from the spec: a cell edit is a manual override of the forecast amount,
  tagged with the method manual; a locked record is never altered, so the edit of a
  locked date is skipped.
\<close>

definition cell_update :: "CellUpdateRequest \<Rightarrow> forecast_records \<Rightarrow> forecast_records" where
  "cell_update req records =
     (let key = (vendor_group_id req, forecast_date req)
      in case records key of
           None \<Rightarrow>
             records(key \<mapsto> \<lparr>forecasted_amount = new_amount req, pattern_type = ''irregular'',
                               forecast_method = ''manual'', actual_amount = None,
                               variance_amount = None, is_locked = False\<rparr>)
         | Some r \<Rightarrow>
             (if is_locked r then records
              else records(key \<mapsto> r\<lparr>forecasted_amount := new_amount req,
                                       forecast_method := ''manual''\<rparr>)))"

text \<open>
  Modelled from the spec: regeneration writes the generated records, each a vendor
  group, a date, an amount and the pattern type that produced it, and skips every date
  of a vendor group that holds a locked record.
\<close>

record generated =
  gen_vendor_group :: int
  gen_date :: string
  gen_amount :: real
  gen_pattern_type :: string

definition write_generated :: "generated \<Rightarrow> forecast_records \<Rightarrow> forecast_records" where
  "write_generated g records =
     (let key = (gen_vendor_group g, gen_date g);
          fresh = \<lparr>forecasted_amount = gen_amount g, pattern_type = gen_pattern_type g,
                   forecast_method = ''pattern'', actual_amount = None,
                   variance_amount = None, is_locked = False\<rparr>
      in case records key of
           None \<Rightarrow> records(key \<mapsto> fresh)
         | Some r \<Rightarrow> (if is_locked r then records else records(key \<mapsto> fresh)))"

definition regenerate :: "generated list \<Rightarrow> forecast_records \<Rightarrow> forecast_records" where
  "regenerate gs records = fold write_generated gs records"

text \<open>The operations that edit or regenerate forecasts, and a run of them.\<close>

datatype forecast_operation = CellEdit CellUpdateRequest | Regenerate "generated list"

fun apply_operation :: "forecast_operation \<Rightarrow> forecast_records \<Rightarrow> forecast_records" where
  "apply_operation (CellEdit req) records = cell_update req records"
| "apply_operation (Regenerate gs) records = regenerate gs records"

section \<open>Notions used in the statements\<close>

text \<open>The time values of a list of transactions with valid dates, in the list's order.\<close>

fun dates_of :: "transaction list \<Rightarrow> int list" where
  "dates_of [] = []"
| "dates_of (tx # txs) =
     (case transaction_date tx of Some d \<Rightarrow> d # dates_of txs | None \<Rightarrow> dates_of txs)"

text \<open>The gaps, in days, between neighbours of a list of time values, as doubles: the
  difference and the quotient are each rounded.\<close>

fun day_gaps :: "int list \<Rightarrow> real list" where
  "day_gaps (a # b # ds) =
     fl (\<bar>fl (real_of_int a - real_of_int b)\<bar> / 86400000) # day_gaps (b # ds)"
| "day_gaps _ = []"

text \<open>The sum of a list of doubles, added from the left with every partial sum rounded,
  and their mean, the rounded quotient of that sum by their number.\<close>

definition fl_sum :: "real list \<Rightarrow> real" where
  "fl_sum xs = foldl (\<lambda>a b. fl (a + b)) 0 xs"

definition fl_mean :: "real list \<Rightarrow> real" where
  "fl_mean xs = fl (fl_sum xs / real (length xs))"

text \<open>The gaps between neighbours among the transactions of the 90-day window.\<close>

definition window_gaps :: "int \<Rightarrow> transaction list \<Rightarrow> real list" where
  "window_gaps now txs = day_gaps (dates_of (recentTxs now txs))"

text \<open>The confidence before \<^verbatim>\<open>Math.round\<close>, on the scale from 0 to 100: 100 minus the mean
  absolute deviation of the gaps from their mean, in percent of that mean, clamped;
  every difference, quotient and product is a double.\<close>

definition raw_confidence :: "real list \<Rightarrow> real" where
  "raw_confidence gs =
     (let m = fl_mean gs; v = fl_mean (map (\<lambda>g. \<bar>fl (g - m)\<bar>) gs)
      in max 0 (min 100 (fl (100 - fl (fl (v / m) * 100)))))"

text \<open>The confidence that the analyser returns for the gaps \<open>gs\<close>, whatever their mean.\<close>

definition confidence_of :: "real list \<Rightarrow> jsnum" where
  "confidence_of gs =
     (let m = fl_mean gs; v = fl_mean (map (\<lambda>g. \<bar>fl (g - m)\<bar>) gs)
      in Math_round (Math_max (Fin 0) (Math_min (Fin 100)
           (fl_sub (Fin 100) (fl_mul (fl_div (Fin v) (Fin m)) (Fin 100))))))"





subsection \<open>The classifier and the estimator in the words of the specification\<close>

text \<open>
  The specification describes a classifier that sorts the dates and takes the median
  gap, a confidence on the scale from 0 to 1 with a completeness factor, and an amount
  weighted 1:1:2 over three calendar months. These definitions follow its words, in exact
  arithmetic; they are what the analyser is compared with.
\<close>

fun exact_gaps :: "int list \<Rightarrow> real list" where
  "exact_gaps (a # b # ds) = \<bar>real_of_int a - real_of_int b\<bar> / 86400000 # exact_gaps (b # ds)"
| "exact_gaps _ = []"

definition mean :: "real list \<Rightarrow> real" where
  "mean xs = sum_list xs / real (length xs)"

definition median :: "real list \<Rightarrow> real" where
  "median xs =
     (let s = sort xs; n = length s
      in if n = 0 then 0
         else if odd n then s ! (n div 2)
         else (s ! (n div 2 - 1) + s ! (n div 2)) / 2)"

definition median_gap_spec :: "int list \<Rightarrow> real" where
  "median_gap_spec ds = median (exact_gaps (sort ds))"

definition confidence_spec :: "real list \<Rightarrow> real \<Rightarrow> real \<Rightarrow> real" where
  "confidence_spec gaps observed_span_days lookback_window_days =
     (let m = median gaps; dev = mean (map (\<lambda>g. \<bar>g - m\<bar>) gaps)
      in max 0 (min 1 (1 - dev / m)) * (observed_span_days / lookback_window_days))"




subsection \<open>Sample inputs\<close>

text \<open>A transaction at midnight UTC of the day with the given number (days since the
  epoch), and the time value of that midnight.\<close>

definition midnight :: "int \<Rightarrow> int" where
  "midnight n = n * 86400000"

definition tx_on :: "int \<Rightarrow> real \<Rightarrow> transaction" where
  "tx_on n a = \<lparr>transaction_date = Some (midnight n), amount = a\<rparr>"




text \<open>The forecast records of one vendor group: the week of 2025-08-04 is reconciled
  and locked, the week after it is not.\<close>

definition sample_records :: forecast_records where
  "sample_records =
     [(1, ''2025-08-04'') \<mapsto>
        \<lparr>forecasted_amount = 1000, pattern_type = ''weekly'', forecast_method = ''pattern'',
         actual_amount = Some 1200, variance_amount = Some 200, is_locked = True\<rparr>,
      (1, ''2025-08-11'') \<mapsto>
        \<lparr>forecasted_amount = 1000, pattern_type = ''weekly'', forecast_method = ''pattern'',
         actual_amount = None, variance_amount = None, is_locked = False\<rparr>]"

section \<open>Properties of the number and date operations\<close>

lemma js_le_NaN_right: "js_le a NaN = False"
  by (cases a) simp_all

lemma Math_min_Fin: "Math_min (Fin a) (Fin b) = Fin (min a b)"
  by (simp add: min_def)

lemma Math_max_Fin: "Math_max (Fin a) (Fin b) = Fin (max a b)"
  by (simp add: max_def)

lemma fl_0: "fl 0 = 0"
  by (simp add: fl_def)

lemma fl_add_Fin: "fl_add (Fin a) (Fin b) = Fin (fl (a + b))"
  by (simp add: fl_add_def)

lemma fl_sub_Fin: "fl_sub (Fin a) (Fin b) = Fin (fl (a - b))"
  by (simp add: fl_sub_def js_sub_def)

lemma fl_mul_Fin: "fl_mul (Fin a) (Fin b) = Fin (fl (a * b))"
  by (simp add: fl_mul_def)

lemma fl_div_Fin: "b \<noteq> 0 \<Longrightarrow> fl_div (Fin a) (Fin b) = Fin (fl (a / b))"
  by (simp add: fl_div_def)

lemma reduce_sum_Fin: "reduce_sum (map Fin xs) = Fin (fl_sum xs)"
proof -
  have "foldl fl_add (Fin a) (map Fin xs) = Fin (foldl (\<lambda>a b. fl (a + b)) a xs)" for a
    by (induction xs arbitrary: a) (auto simp: fl_add_Fin)
  from this [of 0] show ?thesis by (simp add: reduce_sum_def fl_sum_def)
qed

lemma avg_Fin:
  assumes "xs \<noteq> []"
  shows "fl_div (reduce_sum (map Fin xs)) (Fin (real (length (map Fin xs)))) = Fin (fl_mean xs)"
  using assms by (simp add: reduce_sum_Fin fl_mean_def fl_div_Fin)

lemma fl_sum_zeros:
  assumes "\<forall>x\<in>set xs. x = 0"
  shows "fl_sum xs = 0"
proof -
  have "foldl (\<lambda>a b. fl (a + b)) 0 xs = 0" using assms by (induction xs) (auto simp: fl_0)
  then show ?thesis by (simp add: fl_sum_def)
qed

lemma fl_mean_zeros:
  assumes "\<forall>x\<in>set xs. x = 0"
  shows "fl_mean xs = 0"
  by (simp add: fl_mean_def fl_sum_zeros [OF assms] fl_0)

lemma trunc_of_int: "trunc (real_of_int z) = z"
  by (simp add: trunc_def)

lemma new_Date_of_int:
  "new_Date (Fin (real_of_int z)) = (if \<bar>z\<bar> \<le> 8640000000000000 then Some z else None)"
proof -
  have "(\<bar>real_of_int z\<bar> \<le> 8640000000000000) = (\<bar>z\<bar> \<le> 8640000000000000)"
    by linarith
  then show ?thesis by (simp add: trunc_of_int)
qed

lemma ninetyDaysAgo_eq:
  "new_Date (js_sub (getTime (Some now)) (Fin (90 * 24 * 60 * 60 * 1000))) =
     (if \<bar>now - 7776000000\<bar> \<le> 8640000000000000 then Some (now - 7776000000) else None)"
proof -
  have "js_sub (getTime (Some now)) (Fin (90 * 24 * 60 * 60 * 1000))
        = Fin (real_of_int (now - 7776000000))"
    by (simp add: js_sub_def)
  then show ?thesis by (simp only: new_Date_of_int)
qed

section \<open>The 90-day window\<close>

lemma recentTxs_eq:
  "recentTxs now txs =
     (if \<bar>now - 7776000000\<bar> \<le> 8640000000000000
      then filter (\<lambda>tx. case transaction_date tx of
                          Some d \<Rightarrow> now - 7776000000 \<le> d | None \<Rightarrow> False) txs
      else [])"
proof (cases "\<bar>now - 7776000000\<bar> \<le> 8640000000000000")
  case True
  have ge: "date_ge (Some d) (Some (now - 7776000000)) = (now - 7776000000 \<le> d)" for d
    unfolding date_ge_def js_ge_def getTime.simps js_le.simps by (rule of_int_le_iff)
  have f: "date_ge (transaction_date tx) (Some (now - 7776000000)) =
        (case transaction_date tx of Some d \<Rightarrow> now - 7776000000 \<le> d | None \<Rightarrow> False)" for tx
    by (cases "transaction_date tx") (simp_all add: ge, simp add: date_ge_def js_ge_def)
  show ?thesis
    unfolding recentTxs_def Let_def ninetyDaysAgo_eq using True by (simp add: f)
next
  case False
  have "date_ge d None = False" for d
    by (simp add: date_ge_def js_ge_def)
  then show ?thesis
    using False unfolding recentTxs_def Let_def ninetyDaysAgo_eq by simp
qed

lemma recentTxs_valid:
  assumes "tx \<in> set (recentTxs now txs)"
  shows "transaction_date tx \<noteq> None"
  using assms by (auto simp: recentTxs_eq split: if_splits option.splits)

lemma recentTxs_length: "length (recentTxs now txs) \<le> length txs"
  by (simp add: recentTxs_eq)

lemma recentTxs_old:
  assumes "\<forall>tx\<in>set txs. \<forall>d. transaction_date tx = Some d \<longrightarrow> d < now - 90 * 24 * 60 * 60 * 1000"
  shows "recentTxs now txs = []"
proof -
  have "\<not> (case transaction_date tx of Some d \<Rightarrow> now - 7776000000 \<le> d | None \<Rightarrow> False)"
    if "tx \<in> set txs" for tx
    using assms that by (cases "transaction_date tx") fastforce+
  then show ?thesis by (simp add: recentTxs_eq)
qed

lemma dates_of_valid:
  assumes "\<forall>tx\<in>set txs. transaction_date tx \<noteq> None"
  shows "map transaction_date txs = map Some (dates_of txs)"
  using assms by (induction txs) auto

lemma recentTxs_dates:
  "map transaction_date (recentTxs now txs) = map Some (dates_of (recentTxs now txs))"
  by (rule dates_of_valid) (simp add: recentTxs_valid)

section \<open>The analysis of the window\<close>

lemma day_gaps_length: "length (day_gaps ds) = length ds - 1"
  by (induction ds rule: day_gaps.induct) auto

text \<open>The loop collects the gaps between neighbours, from index \<open>i\<close> on.\<close>

lemma intervals_loop_eq:
  assumes "map transaction_date txs = map Some ds"
  shows "intervals_loop txs i acc = acc @ map Fin (day_gaps (drop i ds))"
  using assms
proof (induction txs i acc rule: intervals_loop.induct)
  case (1 txs i acc)
  have len: "length ds = length txs"
    using "1.prems" by (metis length_map)
  show ?case
  proof (cases "int i < int (length txs) - 1")
    case True
    then have i1: "i + 1 < length txs" by simp
    have d1: "transaction_date (txs ! i) = Some (ds ! i)"
      using "1.prems" i1 len by (metis Suc_eq_plus1 Suc_lessD nth_map)
    have d2: "transaction_date (txs ! (i + 1)) = Some (ds ! (i + 1))"
      using "1.prems" i1 len by (metis nth_map)
    have dr: "drop i ds = ds ! i # drop (i + 1) ds"
      using i1 len by (simp add: Cons_nth_drop_Suc)
    have dr1: "drop (i + 1) ds = ds ! (i + 1) # drop (i + 2) ds"
      using i1 len by (simp add: Cons_nth_drop_Suc)
    define g where
      "g = fl (\<bar>fl (real_of_int (ds ! i) - real_of_int (ds ! (i + 1)))\<bar> / 86400000)"
    have dg: "day_gaps (drop i ds) = g # day_gaps (drop (i + 1) ds)"
      unfolding g_def
      by (subst dr, subst dr1, subst day_gaps.simps(1), subst dr1) (rule refl)
    have "intervals_loop txs i acc = intervals_loop txs (i + 1) (acc @ [Fin g])"
      using True d1 d2
      by (subst intervals_loop.simps) (simp add: fl_sub_Fin fl_div_Fin g_def)
    also have "\<dots> = (acc @ [Fin g]) @ map Fin (day_gaps (drop (i + 1) ds))"
      using "1.IH" [OF True refl refl refl "1.prems"] d1 d2
      by (simp add: fl_sub_Fin fl_div_Fin g_def)
    finally show ?thesis by (simp only: dg list.map append_assoc append_Cons append_Nil)
  next
    case False
    then have "length ds - i \<le> 1" using len by simp
    then have "length (drop i ds) \<le> 1" by simp
    then have "day_gaps (drop i ds) = []"
      by (cases "drop i ds" rule: day_gaps.cases) simp_all
    then show ?thesis using False by (subst intervals_loop.simps) simp
  qed
qed

text \<open>The confidence on gaps whose mean is not 0 is the rounded clamped percentage; on
  gaps that are all 0 it is NaN.\<close>

lemma confidence_of_nonzero:
  assumes "fl_mean gs \<noteq> 0"
  shows "confidence_of gs = Fin (of_int \<lfloor>raw_confidence gs + 1 / 2\<rfloor>)"
  using assms
  by (simp add: confidence_of_def raw_confidence_def Let_def fl_div_Fin fl_mul_Fin fl_sub_Fin
      Math_min_Fin Math_max_Fin)

lemma confidence_of_zeros:
  assumes "\<forall>g\<in>set gs. g = 0"
  shows "confidence_of gs = NaN"
proof -
  have m: "fl_mean gs = 0" using assms by (rule fl_mean_zeros)
  have "\<forall>x\<in>set (map (\<lambda>g. \<bar>fl (g - 0)\<bar>) gs). x = 0" using assms by (auto simp: fl_0)
  then have v: "fl_mean (map (\<lambda>g. \<bar>fl (g - 0)\<bar>) gs) = 0" by (rule fl_mean_zeros)
  show ?thesis
    unfolding confidence_of_def Let_def m v
    by (simp add: fl_div_def fl_mul_def fl_sub_def js_sub_def)
qed

text \<open>What the analysis of two or more transactions with valid dates returns, in terms
  of the gaps \<open>day_gaps ds\<close> of their time values \<open>ds\<close>.\<close>

lemma analyze_recent_eq:
  assumes ds: "map transaction_date recent = map Some ds" and len: "2 \<le> length recent"
  shows "analyze_recent recent =
     (let gs = day_gaps ds;
          p = determine_pattern (Fin (fl_mean gs));
          t = hd ds + snd p * 86400000
      in if \<bar>t\<bar> \<le> 8640000000000000 then
           Inr \<lparr>detected_pattern = fst p, detected_interval = snd p,
                detected_amount = Fin (fl_mean (map (\<lambda>tx. \<bar>amount tx\<bar>) recent)),
                confidence = confidence_of gs,
                next_date = Some (t div 86400000)\<rparr>
         else Inl RangeError)"
proof -
  define gs where "gs = day_gaps ds"
  have lds: "length ds = length recent" using ds by (metis length_map)
  have iv: "intervals_loop recent 0 [] = map Fin gs"
    using intervals_loop_eq [OF ds, of 0 "[]"] by (simp add: gs_def)
  have lgs: "length gs = length recent - 1" by (simp add: gs_def lds day_gaps_length)
  have gne: "gs \<noteq> []" using lgs len by auto
  have avgI: "fl_div (reduce_sum (map Fin gs)) (Fin (real (length (map Fin gs)))) = Fin (fl_mean gs)"
    using gne by (rule avg_Fin)
  have var: "map (\<lambda>i. Math_abs (fl_sub i (Fin (fl_mean gs)))) (map Fin gs)
             = map Fin (map (\<lambda>g. \<bar>fl (g - fl_mean gs)\<bar>) gs)"
    by (simp add: fl_sub_Fin)
  have avgV: "fl_div (reduce_sum (map Fin (map (\<lambda>g. \<bar>fl (g - fl_mean gs)\<bar>) gs)))
                     (Fin (real (length (map Fin (map (\<lambda>g. \<bar>fl (g - fl_mean gs)\<bar>) gs)))))
              = Fin (fl_mean (map (\<lambda>g. \<bar>fl (g - fl_mean gs)\<bar>) gs))"
    using gne by (intro avg_Fin) simp
  have conf: "Math_round (Math_max (Fin 0) (Math_min (Fin 100)
                (fl_sub (Fin 100)
                   (fl_mul (fl_div (Fin (fl_mean (map (\<lambda>g. \<bar>fl (g - fl_mean gs)\<bar>) gs)))
                                   (Fin (fl_mean gs)))
                           (Fin 100)))))
              = confidence_of gs"
    by (simp add: confidence_of_def Let_def)
  have am: "map (\<lambda>tx. Math_abs (Fin (amount tx))) recent = map Fin (map (\<lambda>tx. \<bar>amount tx\<bar>) recent)"
    by simp
  have rne: "recent \<noteq> []" using len by (cases recent) simp_all
  have avgA: "fl_div (reduce_sum (map Fin (map (\<lambda>tx. \<bar>amount tx\<bar>) recent)))
                     (Fin (real (length (map Fin (map (\<lambda>tx. \<bar>amount tx\<bar>) recent)))))
              = Fin (fl_mean (map (\<lambda>tx. \<bar>amount tx\<bar>) recent))"
    using rne by (intro avg_Fin) simp
  have ld: "transaction_date (recent ! 0) = Some (hd ds)"
  proof -
    have "0 < length recent" using len by linarith
    then have "map transaction_date recent ! 0 = transaction_date (recent ! 0)" by simp
    moreover have "map Some ds ! 0 = Some (hd ds)"
      using lds len by (cases ds) auto
    ultimately show ?thesis using ds by simp
  qed
  have nd: "new_Date (js_add (getTime (Some (hd ds))) (Fin (real_of_int (k * 24 * 60 * 60 * 1000))))
            = (if \<bar>hd ds + k * 86400000\<bar> \<le> 8640000000000000 then Some (hd ds + k * 86400000)
               else None)" for k
  proof -
    have "js_add (getTime (Some (hd ds))) (Fin (real_of_int (k * 24 * 60 * 60 * 1000)))
          = Fin (real_of_int (hd ds + k * 86400000))" by simp
    then show ?thesis by (simp only: new_Date_of_int)
  qed
  obtain p k where pk: "determine_pattern (Fin (fl_mean gs)) = (p, k)"
    by (cases "determine_pattern (Fin (fl_mean gs))")
  show ?thesis
    unfolding analyze_recent_def iv Let_def avgI var avgV conf am avgA ld gs_def [symmetric]
    by (simp only: pk prod.case nd fst_conv snd_conv split: if_splits) simp
qed

text \<open>Both pages, past their guards, analyse the window.\<close>

lemma analyzePattern_window:
  assumes "2 \<le> length (recentTxs now txs)"
  shows "analyzePattern now txs = analyze_recent (recentTxs now txs)"
    and "analyzePattern_v2 now txs = analyze_recent (recentTxs now txs)"
proof -
  have "2 \<le> length txs" using assms recentTxs_length [of now txs] by linarith
  then show "analyzePattern now txs = analyze_recent (recentTxs now txs)"
    and "analyzePattern_v2 now txs = analyze_recent (recentTxs now txs)"
    using assms by (simp_all add: analyzePattern_def analyzePattern_v2_def)
qed

lemma analyzePattern_eq:
  assumes "2 \<le> length (recentTxs now txs)"
  shows "analyzePattern now txs =
     (let gs = window_gaps now txs;
          p = determine_pattern (Fin (fl_mean gs));
          t = hd (dates_of (recentTxs now txs)) + snd p * 86400000
      in if \<bar>t\<bar> \<le> 8640000000000000 then
           Inr \<lparr>detected_pattern = fst p, detected_interval = snd p,
                detected_amount = Fin (fl_mean (map (\<lambda>tx. \<bar>amount tx\<bar>) (recentTxs now txs))),
                confidence = confidence_of gs,
                next_date = Some (t div 86400000)\<rparr>
         else Inl RangeError)"
  unfolding analyzePattern_window(1) [OF assms] window_gaps_def
  by (rule analyze_recent_eq [OF recentTxs_dates assms])

text \<open>With fewer than two transactions in the window both pages return early.\<close>

lemma analyzePattern_early:
  assumes "length (recentTxs now txs) < 2"
  shows "analyzePattern now txs =
           Inr \<lparr>detected_pattern = ''irregular'', detected_interval = 0,
                detected_amount = Fin (first_amount_or_0 txs), confidence = Fin 0,
                next_date = None\<rparr>"
  using assms by (simp add: analyzePattern_def)

lemma analyzePattern_v2_early:
  assumes "length (recentTxs now txs) < 2"
  shows "analyzePattern_v2 now txs =
           Inr \<lparr>detected_pattern = ''irregular'', detected_interval = 0,
                detected_amount = (if length txs < 2 then Fin (first_amount_or_0 txs)
                                   else Fin \<bar>first_amount_or_0 txs\<bar>),
                confidence = Fin 0, next_date = Some (now div 86400000)\<rparr>"
  using assms by (simp add: analyzePattern_v2_def)


lemma day_gaps_same:
  assumes "\<forall>x\<in>set ds. x = d"
  shows "\<forall>g\<in>set (day_gaps ds). g = 0"
  using assms by (induction ds rule: day_gaps.induct) (auto simp: fl_0)

lemma dates_of_same:
  assumes "\<forall>tx\<in>set txs. transaction_date tx = Some d"
  shows "dates_of txs = replicate (length txs) d"
  using assms by (induction txs) auto

text \<open>The analysis returns a record unless the date that follows the newest transaction
  leaves the range of dates: the interval added is at most 90 days.\<close>

lemma determine_pattern_interval:
  "0 \<le> snd (determine_pattern a) \<and> snd (determine_pattern a) \<le> 90"
  by (simp add: determine_pattern_def)

lemma analyzePattern_returns:
  assumes "2 \<le> length (recentTxs now txs)"
    and "\<bar>hd (dates_of (recentTxs now txs))\<bar> \<le> 8640000000000000 - 7776000000"
  shows "\<exists>r. analyzePattern now txs = Inr r"
proof -
  define k where "k = snd (determine_pattern (Fin (fl_mean (window_gaps now txs))))"
  have "0 \<le> k" and "k \<le> 90"
    using determine_pattern_interval [of "Fin (fl_mean (window_gaps now txs))"]
    by (simp_all add: k_def)
  then have "\<bar>hd (dates_of (recentTxs now txs)) + k * 86400000\<bar> \<le> 8640000000000000"
    using assms(2) by linarith
  then show ?thesis
    unfolding analyzePattern_eq [OF assms(1)] Let_def k_def [symmetric] by simp
qed

section \<open>The claims about the pattern analyser\<close>

text \<open>
  Claim C1, as amended. Where the window holds two or more transactions and the analysis
  returns, the frequency class and its interval are those that the chain of comparisons
  assigns to the arithmetic mean of the day-gaps between neighbouring transactions of the
  window, in the order in which the list gives them (the analyser does not sort, and it
  takes no median). The mean is the one the analyser computes, in doubles. The second
  page returns the same record.
\<close>

theorem C1_mean_gap_selects_class:
  assumes "2 \<le> length (recentTxs now txs)" and "analyzePattern now txs = Inr r"
  shows "(detected_pattern r, detected_interval r)
           = determine_pattern (Fin (fl_mean (window_gaps now txs)))
         \<and> analyzePattern_v2 now txs = Inr r"
proof -
  have v2: "analyzePattern_v2 now txs = analyzePattern now txs"
    using analyzePattern_window [OF assms(1)] by simp
  have "(detected_pattern r, detected_interval r)
          = determine_pattern (Fin (fl_mean (window_gaps now txs)))"
    using assms(2) unfolding analyzePattern_eq [OF assms(1)] Let_def
    by (auto split: if_splits)
  then show ?thesis using v2 assms(2) by simp
qed

theorem C1_mean_gap_selects_class_witness:
  "2 \<le> length (recentTxs (midnight 100) [tx_on 40 1, tx_on 39 1, tx_on 38 1, tx_on 12 1])
   \<and> analyzePattern (midnight 100) [tx_on 40 1, tx_on 39 1, tx_on 38 1, tx_on 12 1]
       = Inr \<lparr>detected_pattern = ''bi-weekly'', detected_interval = 14,
              detected_amount = Fin 1, confidence = Fin 0, next_date = Some 54\<rparr>
   \<and> determine_pattern
        (Fin (fl_mean
                (window_gaps (midnight 100) [tx_on 40 1, tx_on 39 1, tx_on 38 1, tx_on 12 1])))
       = (''bi-weekly'', 14)"
proof -
  have h1: "2 \<le> length (recentTxs (midnight 100)
                    [tx_on 40 1, tx_on 39 1, tx_on 38 1, tx_on 12 1])"
    by (simp add: recentTxs_eq midnight_def tx_on_def)
  have h2: "analyzePattern (midnight 100) [tx_on 40 1, tx_on 39 1, tx_on 38 1, tx_on 12 1]
       = Inr \<lparr>detected_pattern = ''bi-weekly'', detected_interval = 14,
              detected_amount = Fin 1, confidence = Fin 0, next_date = Some 54\<rparr>"
    by code_simp
  show ?thesis using h1 h2 C1_mean_gap_selects_class [OF h1 h2] by simp
qed

text \<open>
  Claim C1 as stated fails: for transactions on the days 40, 39, 38 and 12 the gaps are
  1, 1 and 26 days; their median, 1 day, selects daily, and the analyser, which takes
  their mean, returns bi-weekly.
\<close>

theorem C1_counterexample:
  "map_sum id detected_pattern
     (analyzePattern (midnight 100) [tx_on 40 1, tx_on 39 1, tx_on 38 1, tx_on 12 1])
     = Inr ''bi-weekly''
   \<and> median_gap_spec [midnight 40, midnight 39, midnight 38, midnight 12] = 1
   \<and> fst (determine_pattern
            (Fin (median_gap_spec [midnight 40, midnight 39, midnight 38, midnight 12])))
     = ''daily''"
  by code_simp

text \<open>
  Claim C2, as amended. With fewer than 2 transactions in the 90-day window, whatever
  their dates and those of the older transactions, both pages return the class irregular
  with confidence 0.
\<close>

theorem C2_fewer_than_two_irregular:
  assumes "length (recentTxs now txs) < 2"
  shows "(\<exists>r. analyzePattern now txs = Inr r \<and> detected_pattern r = ''irregular''
              \<and> confidence r = Fin 0)
       \<and> (\<exists>r. analyzePattern_v2 now txs = Inr r \<and> detected_pattern r = ''irregular''
              \<and> confidence r = Fin 0)"
  by (simp add: analyzePattern_early [OF assms] analyzePattern_v2_early [OF assms])

theorem C2_fewer_than_two_irregular_witness:
  "length (recentTxs (midnight 100) [tx_on 99 10, tx_on 8 20, tx_on 1 30]) < 2
   \<and> (\<exists>r. analyzePattern (midnight 100) [tx_on 99 10, tx_on 8 20, tx_on 1 30] = Inr r
          \<and> detected_pattern r = ''irregular'' \<and> confidence r = Fin 0)
   \<and> (\<exists>r. analyzePattern_v2 (midnight 100) [tx_on 99 10, tx_on 8 20, tx_on 1 30] = Inr r
          \<and> detected_pattern r = ''irregular'' \<and> confidence r = Fin 0)"
proof -
  have h: "length (recentTxs (midnight 100) [tx_on 99 10, tx_on 8 20, tx_on 1 30]) < 2"
    by (simp add: recentTxs_eq midnight_def tx_on_def)
  show ?thesis using h C2_fewer_than_two_irregular [OF h] by simp
qed

text \<open>
  Claim C2 as stated fails: two transactions inside the window, a week apart, are
  classified weekly with confidence 100.
\<close>

theorem C2_counterexample:
  "analyzePattern (midnight 100) [tx_on 99 10, tx_on 92 20]
     = Inr \<lparr>detected_pattern = ''weekly'', detected_interval = 7,
            detected_amount = Fin 15, confidence = Fin 100, next_date = Some 106\<rparr>"
  by code_simp

text \<open>
  Claim C3, as amended. The class is chosen by the bucket of the gap statistic \<open>g\<close>, each
  bucket closed at its upper end: daily up to 1.5 days, weekly above 1.5 up to 8,
  bi-weekly above 8 up to 17, monthly above 17 up to 35, quarterly above 35 up to 100,
  and irregular above 100 (there is no annual class). Every statistic falls into exactly
  one class.
\<close>

theorem C3_gap_buckets:
  "((fst (determine_pattern (Fin g)) = ''daily'') = (g \<le> 1.5))
   \<and> ((fst (determine_pattern (Fin g)) = ''weekly'') = (1.5 < g \<and> g \<le> 8))
   \<and> ((fst (determine_pattern (Fin g)) = ''bi-weekly'') = (8 < g \<and> g \<le> 17))
   \<and> ((fst (determine_pattern (Fin g)) = ''monthly'') = (17 < g \<and> g \<le> 35))
   \<and> ((fst (determine_pattern (Fin g)) = ''quarterly'') = (35 < g \<and> g \<le> 100))
   \<and> ((fst (determine_pattern (Fin g)) = ''irregular'') = (100 < g))"
  by (simp add: determine_pattern_def)

text \<open>
  Claim C3 as stated fails: a gap of 200 days is classified irregular, not annual, as
  for a transaction of today and one dated 200 days ahead.
\<close>

theorem C3_counterexample:
  "determine_pattern (Fin 200) = (''irregular'', 0)
   \<and> map_sum id detected_pattern (analyzePattern (midnight 100) [tx_on 300 1, tx_on 100 1])
       = Inr ''irregular''"
  by code_simp

text \<open>
  Claim C4, as amended. Where the window holds two or more transactions, the mean gap is
  not 0 and the analysis returns, the confidence is 100 minus the mean absolute deviation
  of the gaps from the mean gap in percent of the mean gap, every step computed in
  doubles, clamped to the range from 0 to 100 and rounded to the nearest integer; it is a
  whole number between 0 and 100, and no completeness factor enters. The second page
  returns the same record.
\<close>

theorem C4_confidence_percent:
  assumes "2 \<le> length (recentTxs now txs)" and "fl_mean (window_gaps now txs) \<noteq> 0"
    and "analyzePattern now txs = Inr r"
  shows "confidence r = Fin (of_int \<lfloor>raw_confidence (window_gaps now txs) + 1 / 2\<rfloor>)
       \<and> 0 \<le> \<lfloor>raw_confidence (window_gaps now txs) + 1 / 2\<rfloor>
       \<and> \<lfloor>raw_confidence (window_gaps now txs) + 1 / 2\<rfloor> \<le> 100
       \<and> analyzePattern_v2 now txs = Inr r"
proof -
  have v2: "analyzePattern_v2 now txs = analyzePattern now txs"
    using analyzePattern_window [OF assms(1)] by simp
  have "confidence r = confidence_of (window_gaps now txs)"
    using assms(3) unfolding analyzePattern_eq [OF assms(1)] Let_def
    by (auto split: if_splits)
  then have c: "confidence r = Fin (of_int \<lfloor>raw_confidence (window_gaps now txs) + 1 / 2\<rfloor>)"
    by (simp add: confidence_of_nonzero [OF assms(2)])
  have lo: "0 \<le> raw_confidence (window_gaps now txs)"
    and hi: "raw_confidence (window_gaps now txs) \<le> 100"
    by (simp_all add: raw_confidence_def Let_def)
  have "0 \<le> \<lfloor>raw_confidence (window_gaps now txs) + 1 / 2\<rfloor>"
    using lo by (simp add: le_floor_iff)
  moreover have "\<lfloor>raw_confidence (window_gaps now txs) + 1 / 2\<rfloor> \<le> 100"
    using hi by (simp add: floor_le_iff)
  ultimately show ?thesis using c v2 assms(3) by simp
qed

text \<open>The witness has gaps of 2, 2, 16, 14, 8 and 22 days: in doubles the percentage is
  a little below 37.5, and the confidence is 37.\<close>

theorem C4_confidence_percent_witness:
  "2 \<le> length (recentTxs (midnight 100)
           [tx_on 99 1, tx_on 97 1, tx_on 95 1, tx_on 79 1, tx_on 65 1, tx_on 57 1, tx_on 35 1])
   \<and> fl_mean (window_gaps (midnight 100)
           [tx_on 99 1, tx_on 97 1, tx_on 95 1, tx_on 79 1, tx_on 65 1, tx_on 57 1, tx_on 35 1])
       = 6004799503160661 / 562949953421312
   \<and> analyzePattern (midnight 100)
           [tx_on 99 1, tx_on 97 1, tx_on 95 1, tx_on 79 1, tx_on 65 1, tx_on 57 1, tx_on 35 1]
       = Inr \<lparr>detected_pattern = ''bi-weekly'', detected_interval = 14,
              detected_amount = Fin 1, confidence = Fin 37, next_date = Some 113\<rparr>
   \<and> \<lfloor>raw_confidence (window_gaps (midnight 100)
           [tx_on 99 1, tx_on 97 1, tx_on 95 1, tx_on 79 1, tx_on 65 1, tx_on 57 1, tx_on 35 1])
        + 1 / 2\<rfloor> = 37"
proof -
  have h1: "2 \<le> length (recentTxs (midnight 100)
           [tx_on 99 1, tx_on 97 1, tx_on 95 1, tx_on 79 1, tx_on 65 1, tx_on 57 1, tx_on 35 1])"
    by (simp add: recentTxs_eq midnight_def tx_on_def)
  have m: "fl_mean (window_gaps (midnight 100)
           [tx_on 99 1, tx_on 97 1, tx_on 95 1, tx_on 79 1, tx_on 65 1, tx_on 57 1, tx_on 35 1])
       = 6004799503160661 / 562949953421312"
    by code_simp
  have h2: "fl_mean (window_gaps (midnight 100)
           [tx_on 99 1, tx_on 97 1, tx_on 95 1, tx_on 79 1, tx_on 65 1, tx_on 57 1, tx_on 35 1])
       \<noteq> 0"
    unfolding m by simp
  have h3: "analyzePattern (midnight 100)
           [tx_on 99 1, tx_on 97 1, tx_on 95 1, tx_on 79 1, tx_on 65 1, tx_on 57 1, tx_on 35 1]
       = Inr \<lparr>detected_pattern = ''bi-weekly'', detected_interval = 14,
              detected_amount = Fin 1, confidence = Fin 37, next_date = Some 113\<rparr>"
    by code_simp
  show ?thesis using h1 m h3 C4_confidence_percent [OF h1 h2 h3] by simp
qed

text \<open>
  Claim C4 as stated fails: three transactions a week apart get the confidence 100, on
  the scale from 0 to 100, where the formula of the claim gives 1 times the completeness
  14/90.
\<close>

theorem C4_counterexample:
  "map_sum id confidence
     (analyzePattern (midnight 100) [tx_on 99 10, tx_on 92 10, tx_on 85 10]) = Inr (Fin 100)
   \<and> confidence_spec [7, 7] 14 90 = 7 / 45"
  by code_simp




text \<open>
  Claim C6. With 0 or 1 transactions in the window both pages return, as a value and not
  as an error, the record of insufficient data: the class irregular, the interval 0 and
  the confidence 0, with the first amount of the list as it is (the second page: its
  absolute value when the list has two or more transactions) and, on the second page,
  today's date. No gap and no comparison of the classifier enters this record.
\<close>

theorem C6_insufficient_data_result:
  assumes "length (recentTxs now txs) \<le> 1"
  shows "analyzePattern now txs =
           Inr \<lparr>detected_pattern = ''irregular'', detected_interval = 0,
                detected_amount = Fin (first_amount_or_0 txs), confidence = Fin 0,
                next_date = None\<rparr>
       \<and> analyzePattern_v2 now txs =
           Inr \<lparr>detected_pattern = ''irregular'', detected_interval = 0,
                detected_amount = (if length txs < 2 then Fin (first_amount_or_0 txs)
                                   else Fin \<bar>first_amount_or_0 txs\<bar>),
                confidence = Fin 0, next_date = Some (now div 86400000)\<rparr>"
proof -
  have "length (recentTxs now txs) < 2" using assms by linarith
  then show ?thesis by (simp only: analyzePattern_early analyzePattern_v2_early)
qed

theorem C6_insufficient_data_result_witness:
  "length (recentTxs (midnight 100) [tx_on 99 (- 10)]) \<le> 1
   \<and> analyzePattern (midnight 100) [tx_on 99 (- 10)] =
       Inr \<lparr>detected_pattern = ''irregular'', detected_interval = 0,
            detected_amount = Fin (- 10), confidence = Fin 0, next_date = None\<rparr>
   \<and> analyzePattern_v2 (midnight 100) [tx_on 99 (- 10)] =
       Inr \<lparr>detected_pattern = ''irregular'', detected_interval = 0,
            detected_amount = Fin (- 10), confidence = Fin 0, next_date = Some 100\<rparr>"
proof -
  have h: "length (recentTxs (midnight 100) [tx_on 99 (- 10)]) \<le> 1"
    by (simp add: recentTxs_eq midnight_def tx_on_def)
  show ?thesis
    using h C6_insufficient_data_result [OF h]
    by (simp add: first_amount_or_0_def tx_on_def midnight_def)
qed

text \<open>
  Claim C9. The confidence is computed by a division by the average interval that no
  test for 0 guards. Whenever the window holds two or more transactions and all of them
  carry the same date, the average interval is 0, the division is 0 / 0, and the NaN it
  gives passes the clamp and the rounding: the record that both pages return has the
  confidence NaN (and the class daily).
\<close>

theorem C9_same_date_confidence_NaN:
  assumes "2 \<le> length (recentTxs now txs)"
    and "\<forall>tx\<in>set (recentTxs now txs). transaction_date tx = Some d"
    and "\<bar>d + 86400000\<bar> \<le> 8640000000000000"
  shows "fl_mean (window_gaps now txs) = 0
       \<and> (\<exists>r. analyzePattern now txs = Inr r \<and> confidence r = NaN
              \<and> detected_pattern r = ''daily'')
       \<and> (\<exists>r. analyzePattern_v2 now txs = Inr r \<and> confidence r = NaN
              \<and> detected_pattern r = ''daily'')"
proof -
  have v2: "analyzePattern_v2 now txs = analyzePattern now txs"
    using analyzePattern_window [OF assms(1)] by simp
  have ds: "dates_of (recentTxs now txs) = replicate (length (recentTxs now txs)) d"
    using assms(2) by (rule dates_of_same)
  have hd: "hd (dates_of (recentTxs now txs)) = d"
    using assms(1) unfolding ds by (cases "length (recentTxs now txs)") simp_all
  have z: "\<forall>g\<in>set (window_gaps now txs). g = 0"
    unfolding window_gaps_def ds by (rule day_gaps_same [of _ d]) simp
  then have m: "fl_mean (window_gaps now txs) = 0" by (rule fl_mean_zeros)
  have c: "confidence_of (window_gaps now txs) = NaN" using z by (rule confidence_of_zeros)
  have dp: "determine_pattern (Fin 0) = (''daily'', 1)"
    by (simp add: determine_pattern_def)
  have "\<exists>r. analyzePattern now txs = Inr r \<and> confidence r = NaN \<and> detected_pattern r = ''daily''"
    unfolding analyzePattern_eq [OF assms(1)] Let_def m c dp hd using assms(3) by simp
  then show ?thesis using m v2 by simp
qed

theorem C9_same_date_confidence_NaN_witness:
  "2 \<le> length (recentTxs (midnight 100) [tx_on 99 10, tx_on 99 20])
   \<and> map transaction_date (recentTxs (midnight 100) [tx_on 99 10, tx_on 99 20])
       = [Some (midnight 99), Some (midnight 99)]
   \<and> \<bar>midnight 99 + 86400000\<bar> \<le> 8640000000000000
   \<and> (\<exists>r. analyzePattern (midnight 100) [tx_on 99 10, tx_on 99 20] = Inr r
          \<and> confidence r = NaN \<and> detected_pattern r = ''daily'')
   \<and> (\<exists>r. analyzePattern_v2 (midnight 100) [tx_on 99 10, tx_on 99 20] = Inr r
          \<and> confidence r = NaN \<and> detected_pattern r = ''daily'')"
proof -
  have h1: "2 \<le> length (recentTxs (midnight 100) [tx_on 99 10, tx_on 99 20])"
    by (simp add: recentTxs_eq midnight_def tx_on_def)
  have h2: "\<forall>tx\<in>set (recentTxs (midnight 100) [tx_on 99 10, tx_on 99 20]).
              transaction_date tx = Some (midnight 99)"
    by (simp add: recentTxs_eq midnight_def tx_on_def)
  have h3: "\<bar>midnight 99 + 86400000\<bar> \<le> 8640000000000000"
    by (simp add: midnight_def)
  have h4: "map transaction_date (recentTxs (midnight 100) [tx_on 99 10, tx_on 99 20])
       = [Some (midnight 99), Some (midnight 99)]"
    by (simp add: recentTxs_eq midnight_def tx_on_def)
  show ?thesis using h1 h3 h4 C9_same_date_confidence_NaN [OF h1 h2 h3] by simp
qed

text \<open>
  Claim C10. The analyser depends on the clock as well as on the list. Every list whose
  dated transactions all lie more than 90 days before today is classified irregular with
  confidence 0 by both pages, whatever its intervals; and there is a list, three
  transactions a week apart, that each of the two pages classifies weekly on one day and
  irregular on a later one.
\<close>

theorem C10_depends_on_today:
  assumes "\<forall>tx\<in>set txs. \<forall>d. transaction_date tx = Some d \<longrightarrow> d < now - 90 * 24 * 60 * 60 * 1000"
  shows "(\<exists>r. analyzePattern now txs = Inr r \<and> detected_pattern r = ''irregular''
              \<and> confidence r = Fin 0)
       \<and> (\<exists>r. analyzePattern_v2 now txs = Inr r \<and> detected_pattern r = ''irregular''
              \<and> confidence r = Fin 0)
       \<and> (\<exists>txs' now1 now2 r1 r2.
              analyzePattern now1 txs' = Inr r1 \<and> analyzePattern now2 txs' = Inr r2
              \<and> detected_pattern r1 = ''weekly'' \<and> confidence r1 = Fin 100
              \<and> detected_pattern r2 = ''irregular'' \<and> confidence r2 = Fin 0)
       \<and> (\<exists>txs' now1 now2 r1 r2.
              analyzePattern_v2 now1 txs' = Inr r1 \<and> analyzePattern_v2 now2 txs' = Inr r2
              \<and> detected_pattern r1 = ''weekly'' \<and> confidence r1 = Fin 100
              \<and> detected_pattern r2 = ''irregular'' \<and> confidence r2 = Fin 0)"
proof -
  have "recentTxs now txs = []" using assms by (rule recentTxs_old)
  then have short: "length (recentTxs now txs) < 2" by simp
  have a: "analyzePattern (midnight 100) [tx_on 99 10, tx_on 92 10, tx_on 85 10]
       = Inr \<lparr>detected_pattern = ''weekly'', detected_interval = 7,
              detected_amount = Fin 10, confidence = Fin 100, next_date = Some 106\<rparr>"
    by code_simp
  have b: "analyzePattern (midnight 200) [tx_on 99 10, tx_on 92 10, tx_on 85 10]
       = Inr \<lparr>detected_pattern = ''irregular'', detected_interval = 0,
              detected_amount = Fin 10, confidence = Fin 0, next_date = None\<rparr>"
    by code_simp
  have "\<exists>txs' now1 now2 r1 r2.
              analyzePattern now1 txs' = Inr r1 \<and> analyzePattern now2 txs' = Inr r2
              \<and> detected_pattern r1 = ''weekly'' \<and> confidence r1 = Fin 100
              \<and> detected_pattern r2 = ''irregular'' \<and> confidence r2 = Fin 0"
    by (intro exI conjI, rule a, rule b) simp_all
  moreover have a2: "analyzePattern_v2 (midnight 100) [tx_on 99 10, tx_on 92 10, tx_on 85 10]
       = Inr \<lparr>detected_pattern = ''weekly'', detected_interval = 7,
              detected_amount = Fin 10, confidence = Fin 100, next_date = Some 106\<rparr>"
    by code_simp
  have b2: "analyzePattern_v2 (midnight 200) [tx_on 99 10, tx_on 92 10, tx_on 85 10]
       = Inr \<lparr>detected_pattern = ''irregular'', detected_interval = 0,
              detected_amount = Fin 10, confidence = Fin 0, next_date = Some 200\<rparr>"
    by code_simp
  have "\<exists>txs' now1 now2 r1 r2.
              analyzePattern_v2 now1 txs' = Inr r1 \<and> analyzePattern_v2 now2 txs' = Inr r2
              \<and> detected_pattern r1 = ''weekly'' \<and> confidence r1 = Fin 100
              \<and> detected_pattern r2 = ''irregular'' \<and> confidence r2 = Fin 0"
    by (intro exI conjI, rule a2, rule b2) simp_all
  ultimately show ?thesis
    by (simp add: analyzePattern_early [OF short] analyzePattern_v2_early [OF short])
qed

theorem C10_depends_on_today_witness:
  "map transaction_date [tx_on 99 10, tx_on 92 10, tx_on 85 10]
     = [Some (midnight 99), Some (midnight 92), Some (midnight 85)]
   \<and> midnight 99 < midnight 200 - 90 * 24 * 60 * 60 * 1000
   \<and> (\<exists>r. analyzePattern (midnight 200) [tx_on 99 10, tx_on 92 10, tx_on 85 10] = Inr r
          \<and> detected_pattern r = ''irregular'' \<and> confidence r = Fin 0)
   \<and> (\<exists>r. analyzePattern_v2 (midnight 200) [tx_on 99 10, tx_on 92 10, tx_on 85 10] = Inr r
          \<and> detected_pattern r = ''irregular'' \<and> confidence r = Fin 0)"
proof -
  have h: "\<forall>tx\<in>set [tx_on 99 10, tx_on 92 10, tx_on 85 10].
      \<forall>d. transaction_date tx = Some d \<longrightarrow> d < midnight 200 - 90 * 24 * 60 * 60 * 1000"
    by (simp add: tx_on_def midnight_def)
  have d: "map transaction_date [tx_on 99 10, tx_on 92 10, tx_on 85 10]
             = [Some (midnight 99), Some (midnight 92), Some (midnight 85)]"
    by (simp add: tx_on_def)
  have l: "midnight 99 < midnight 200 - 90 * 24 * 60 * 60 * 1000"
    by (simp add: midnight_def)
  show ?thesis using d l C10_depends_on_today [OF h] by blast
qed

section \<open>The rows of the spreadsheet\<close>



text \<open>A row filled by one pass over the periods holds, under each period's start date,
  the value computed from that date.\<close>

lemma fold_row:
  "fold (\<lambda>period row. row(start_date period \<mapsto> f (start_date period))) periods row0 k =
     (if k \<in> start_date ` set periods then Some (f k) else row0 k)"
  by (induction periods arbitrary: row0) auto


lemma group_row_value:
  "group_row dd periods vg k =
     (if k \<in> start_date ` set periods then Some (cell_amount dd k vg) else None)"
  unfolding group_row_def
  by (simp add: fold_row [where f = "\<lambda>k. cell_amount dd k vg"])













section \<open>The claim about the cash balance\<close>




section \<open>The claim about locked records\<close>

lemma cell_update_locked:
  assumes "records key = Some r" and "is_locked r"
  shows "cell_update req records key = Some r"
  using assms by (auto simp: cell_update_def Let_def split: option.splits)

lemma write_generated_locked:
  assumes "records key = Some r" and "is_locked r"
  shows "write_generated g records key = Some r"
  using assms by (auto simp: write_generated_def Let_def split: option.splits)

lemma regenerate_locked:
  assumes "records key = Some r" and "is_locked r"
  shows "regenerate gs records key = Some r"
  using assms unfolding regenerate_def
  by (induction gs arbitrary: records) (simp_all add: write_generated_locked)

lemma apply_operation_locked:
  assumes "records key = Some r" and "is_locked r"
  shows "apply_operation operation records key = Some r"
  using assms by (cases operation) (simp_all add: cell_update_locked regenerate_locked)

text \<open>
  Claim C8. Against the server handlers modelled from the specification: a record that
  is locked stays as it is, with its forecasted amount, its actual amount and its
  variance, through every run of cell edits and regenerations, whatever cells the
  spreadsheet edits and whatever records are generated.
\<close>

theorem C8_locked_records_unchanged:
  assumes "records key = Some r" and "is_locked r"
  shows "fold apply_operation operations records key = Some r"
  using assms
  by (induction operations arbitrary: records) (simp_all add: apply_operation_locked)

theorem C8_locked_records_unchanged_witness:
  "sample_records (1, ''2025-08-04'')
     = Some \<lparr>forecasted_amount = 1000, pattern_type = ''weekly'', forecast_method = ''pattern'',
             actual_amount = Some 1200, variance_amount = Some 200, is_locked = True\<rparr>
   \<and> is_locked \<lparr>forecasted_amount = 1000, pattern_type = ''weekly'',
                 forecast_method = ''pattern'', actual_amount = Some 1200,
                 variance_amount = Some 200, is_locked = True\<rparr>
   \<and> fold apply_operation
        [CellEdit (updateCellValue ''client'' ''2025-08-04'' 1 999),
         CellEdit (updateCellValue ''client'' ''2025-08-11'' 1 999),
         Regenerate [\<lparr>gen_vendor_group = 1, gen_date = ''2025-08-04'', gen_amount = 50,
                      gen_pattern_type = ''daily''\<rparr>]]
        sample_records (1, ''2025-08-04'')
     = Some \<lparr>forecasted_amount = 1000, pattern_type = ''weekly'', forecast_method = ''pattern'',
             actual_amount = Some 1200, variance_amount = Some 200, is_locked = True\<rparr>
   \<and> fold apply_operation
        [CellEdit (updateCellValue ''client'' ''2025-08-04'' 1 999),
         CellEdit (updateCellValue ''client'' ''2025-08-11'' 1 999),
         Regenerate [\<lparr>gen_vendor_group = 1, gen_date = ''2025-08-04'', gen_amount = 50,
                      gen_pattern_type = ''daily''\<rparr>]]
        sample_records (1, ''2025-08-11'')
     = Some \<lparr>forecasted_amount = 999, pattern_type = ''weekly'', forecast_method = ''manual'',
             actual_amount = None, variance_amount = None, is_locked = False\<rparr>"
proof -
  have h1: "sample_records (1, ''2025-08-04'')
     = Some \<lparr>forecasted_amount = 1000, pattern_type = ''weekly'', forecast_method = ''pattern'',
             actual_amount = Some 1200, variance_amount = Some 200, is_locked = True\<rparr>"
    by (simp add: sample_records_def)
  have h2: "is_locked \<lparr>forecasted_amount = 1000, pattern_type = ''weekly'',
                 forecast_method = ''pattern'', actual_amount = Some 1200,
                 variance_amount = Some 200, is_locked = True\<rparr>"
    by simp
  have other: "fold apply_operation
        [CellEdit (updateCellValue ''client'' ''2025-08-04'' 1 999),
         CellEdit (updateCellValue ''client'' ''2025-08-11'' 1 999),
         Regenerate [\<lparr>gen_vendor_group = 1, gen_date = ''2025-08-04'', gen_amount = 50,
                      gen_pattern_type = ''daily''\<rparr>]]
        sample_records (1, ''2025-08-11'')
     = Some \<lparr>forecasted_amount = 999, pattern_type = ''weekly'', forecast_method = ''manual'',
             actual_amount = None, variance_amount = None, is_locked = False\<rparr>"
    by (simp add: sample_records_def updateCellValue_def cell_update_def regenerate_def
        write_generated_def Let_def)
  have locked: "fold apply_operation
        [CellEdit (updateCellValue ''client'' ''2025-08-04'' 1 999),
         CellEdit (updateCellValue ''client'' ''2025-08-11'' 1 999),
         Regenerate [\<lparr>gen_vendor_group = 1, gen_date = ''2025-08-04'', gen_amount = 50,
                      gen_pattern_type = ''daily''\<rparr>]]
        sample_records (1, ''2025-08-04'')
     = Some \<lparr>forecasted_amount = 1000, pattern_type = ''weekly'', forecast_method = ''pattern'',
             actual_amount = Some 1200, variance_amount = Some 200, is_locked = True\<rparr>"
    by (rule C8_locked_records_unchanged
          [where records = sample_records and key = "(1, ''2025-08-04'')", OF h1 h2])
  show ?thesis using h1 h2 other locked by blast
qed

end
